theory Spec2Isabelle
  imports Complex_Main "HOL-Library.Sublist"
begin

section \<open>Python values used by klipplink.py\<close>

text \<open>
  The exceptions that the modelled functions of \<^verbatim>\<open>klipplink.py\<close> can raise by
  themselves. A function that can raise returns \<open>py_error + 'a\<close>, with \<open>Inl\<close> for
  the exception.
\<close>

datatype py_error =
    NameError string
  | KeyError string
  | AttributeError
  | TypeError
  | ValueError

text \<open>
  The configuration is what \<^verbatim>\<open>json.load\<close> returns for \<^verbatim>\<open>config.json\<close>: a dictionary
  from strings to JSON values. A dictionary is kept as an association list in insertion
  order, read with \<open>map_of\<close>. A number is kept by its numeric value (Python tells int
  from float and rounds floats; nothing below depends on either).
\<close>

datatype json =
    JNull
  | JBool bool
  | JNum rat
  | JStr string
  | JList "json list"
  | JDict "(string \<times> json) list"

type_synonym pydict = "(string \<times> json) list"

text \<open>\<^verbatim>\<open>d.get(key, default)\<close>\<close>

definition dict_get :: "pydict \<Rightarrow> string \<Rightarrow> json \<Rightarrow> json" where
  "dict_get d key dflt = (case map_of d key of None \<Rightarrow> dflt | Some v \<Rightarrow> v)"

text \<open>Truth value of a JSON value in a Python condition.\<close>

fun truthy :: "json \<Rightarrow> bool" where
  "truthy JNull = False"
| "truthy (JBool b) = b"
| "truthy (JNum n) = (n \<noteq> 0)"
| "truthy (JStr s) = (s \<noteq> [])"
| "truthy (JList xs) = (xs \<noteq> [])"
| "truthy (JDict kvs) = (kvs \<noteq> [])"

subsection \<open>String methods\<close>

text \<open>\<^verbatim>\<open>x.startswith(p)\<close>, \<^verbatim>\<open>x.endswith(s)\<close> and \<^verbatim>\<open>v in x\<close> on strings.\<close>

definition startswith :: "string \<Rightarrow> string \<Rightarrow> bool" where
  "startswith x p = prefix p x"

definition endswith :: "string \<Rightarrow> string \<Rightarrow> bool" where
  "endswith x s = suffix s x"

definition str_in :: "string \<Rightarrow> string \<Rightarrow> bool" where
  "str_in v x = sublist v x"

text \<open>
  \<^verbatim>\<open>s.replace(old, new)\<close>: the occurrences of \<open>old\<close> are found from left to right
  and do not overlap. \<open>replace_from\<close> is the scan for a non-empty \<open>old\<close>; for the empty
  \<open>old\<close> Python puts \<open>new\<close> before every character and at the end.
\<close>

fun replace_from :: "string \<Rightarrow> string \<Rightarrow> string \<Rightarrow> string" where
  "replace_from old new [] = []"
| "replace_from old new (c # cs) =
     (if prefix old (c # cs)
      then new @ replace_from old new (drop (length old - 1) cs)
      else c # replace_from old new cs)"

definition str_replace :: "string \<Rightarrow> string \<Rightarrow> string \<Rightarrow> string" where
  "str_replace s old new =
     (if old = [] then new @ concat (map (\<lambda>c. c # new) s)
      else replace_from old new s)"

section \<open>MainWindow.modify_url\<close>

text \<open>
  Lines 227 to 238. \<^verbatim>\<open>self.config["replace_domain"]\<close> raises KeyError when the key is
  missing, \<^verbatim>\<open>.get\<close> raises AttributeError on a value that is not a dictionary, and
  \<^verbatim>\<open>replace\<close> and \<^verbatim>\<open>endswith\<close> raise TypeError on an argument that is not a string.
  The call of \<^verbatim>\<open>trace_source\<close> on line 237 writes a log line and leaves the returned
  string as it is.
\<close>

definition modify_url :: "pydict \<Rightarrow> string \<Rightarrow> py_error + string" where
  "modify_url config url =
     (case
        (if truthy (dict_get config ''enable_domain_replacement'' (JBool False)) then
           (case map_of config ''replace_domain'' of
              None \<Rightarrow> Inl (KeyError ''replace_domain'')
            | Some (JDict rd) \<Rightarrow>
                (case (dict_get rd ''old'' (JStr ''''), dict_get rd ''new'' (JStr '''')) of
                   (JStr old_domain, JStr new_domain) \<Rightarrow>
                     Inr (str_replace url old_domain new_domain)
                 | _ \<Rightarrow> Inl TypeError)
            | Some _ \<Rightarrow> Inl AttributeError)
         else Inr url)
      of
        Inl e \<Rightarrow> Inl e
      | Inr url1 \<Rightarrow>
          (case dict_get config ''suffix'' (JStr '''') of
             JStr sfx \<Rightarrow>
               Inr (if sfx \<noteq> [] \<and> \<not> endswith url1 sfx then url1 @ sfx else url1)
           | other \<Rightarrow> if truthy other then Inl TypeError else Inr url1))"

text \<open>The configuration that \<^verbatim>\<open>load_configuration\<close> writes when there is none (lines 125 to 134).\<close>

definition default_config :: pydict where
  "default_config =
     [(''hotkey'', JStr ''ctrl''),
      (''double_press_delay'', JNum (3 / 10)),
      (''condition_type'', JStr ''contains''),
      (''condition_value'', JStr ''example''),
      (''enable_domain_replacement'', JBool True),
      (''replace_domain'', JDict [(''old'', JStr ''old.com''), (''new'', JStr ''new.com'')]),
      (''suffix'', JStr ''/suffix''),
      (''allowed_protocols'', JList [JStr ''http'', JStr ''https''])]"

section \<open>URL validation\<close>

subsection \<open>The library calls\<close>

text \<open>
  \<^verbatim>\<open>is_valid_and_ready_url\<close> calls \<^verbatim>\<open>urllib.parse.unquote\<close>, \<^verbatim>\<open>urllib.parse.urlparse\<close>
  and \<^verbatim>\<open>tldextract.extract\<close>. They belong to the Python installation, not to the
  program, so the program's functions take them as a parameter. Of the parse result the
  program reads the attributes \<^verbatim>\<open>scheme\<close> and \<^verbatim>\<open>netloc\<close>; \<^verbatim>\<open>urlparse\<close> can raise
  ValueError; \<open>lib_extract_domain\<close> stands for \<^verbatim>\<open>tldextract.extract(netloc).domain\<close>.
\<close>

record parse_result =
  scheme :: string
  netloc :: string

record urllib =
  lib_unquote :: "string \<Rightarrow> string"
  lib_urlparse :: "string \<Rightarrow> py_error + parse_result"
  lib_extract_domain :: "string \<Rightarrow> string"

subsection \<open>Percent-decoding\<close>

text \<open>The value of a hexadecimal digit.\<close>

definition hex_value :: "char \<Rightarrow> nat option" where
  "hex_value c =
     (let n = (of_char c :: nat) in
      if 48 \<le> n \<and> n \<le> 57 then Some (n - 48)
      else if 65 \<le> n \<and> n \<le> 70 then Some (n - 55)
      else if 97 \<le> n \<and> n \<le> 102 then Some (n - 87)
      else None)"

text \<open>The character that \<open>c\<close>, \<open>h1\<close>, \<open>h2\<close> stand for when they are an escape \<^verbatim>\<open>%XX\<close>.\<close>

definition escape_value :: "char \<Rightarrow> char \<Rightarrow> char \<Rightarrow> char option" where
  "escape_value c h1 h2 =
     (if c = CHR ''%'' then
        (case (hex_value h1, hex_value h2) of
           (Some a, Some b) \<Rightarrow> Some (char_of (16 * a + b))
         | _ \<Rightarrow> None)
      else None)"

text \<open>
  Modelled from the spec: the percent-decoding of section 4.2, step 1. The program calls
  \<^verbatim>\<open>urllib.parse.unquote\<close>, whose code is not among the sources. Every \<^verbatim>\<open>%XX\<close> with two
  hexadecimal digits stands for the character with that code; a \<^verbatim>\<open>%\<close> that two
  hexadecimal digits do not follow stays as it is, and so does every other character.
\<close>

fun unquote :: "string \<Rightarrow> string" where
  "unquote (c # h1 # h2 # rest) =
     (case escape_value c h1 h2 of
        Some d \<Rightarrow> d # unquote rest
      | None \<Rightarrow> c # unquote (h1 # h2 # rest))"
| "unquote cs = cs"

text \<open>A string holds an escape when some \<^verbatim>\<open>%\<close> in it is followed by two hexadecimal digits.\<close>

fun has_escape :: "string \<Rightarrow> bool" where
  "has_escape (c # h1 # h2 # rest) =
     (escape_value c h1 h2 \<noteq> None \<or> has_escape (h1 # h2 # rest))"
| "has_escape cs = False"

subsection \<open>MainWindow.check_domain_conditions and MainWindow.is_valid_and_ready_url\<close>

text \<open>Line 206: the protocols that the check on line 207 is written against.\<close>

definition allowed_protocols :: "pydict \<Rightarrow> json" where
  "allowed_protocols config =
     dict_get config ''allowed_protocols'' (JList [JStr ''http'', JStr ''https''])"

text \<open>
  \<^verbatim>\<open>x in c\<close> for a string \<open>x\<close> and a JSON value \<open>c\<close>: an element of a list, a
  substring of a string, a key of a dictionary; TypeError on the values that are no
  containers.
\<close>

fun py_in :: "string \<Rightarrow> json \<Rightarrow> py_error + bool" where
  "py_in x (JList xs) = Inr (JStr x \<in> set xs)"
| "py_in x (JStr s) = Inr (str_in x s)"
| "py_in x (JDict kvs) = Inr (map_of kvs x \<noteq> None)"
| "py_in x JNull = Inl TypeError"
| "py_in x (JBool b) = Inl TypeError"
| "py_in x (JNum n) = Inl TypeError"

text \<open>
  Lines 205 to 215. The name \<^verbatim>\<open>result\<close> on line 207 is no parameter and no local
  variable of this function, so Python looks it up among the module's globals.
  \<open>result_global\<close> is that binding: \<open>None\<close> when the module has no global of that name,
  in which case the lookup raises NameError. Lines 209 to 215 are the dictionary of the
  three tests, indexed with the configured condition type, with the test that is
  constantly false as the default. A list or a dictionary as the condition type cannot
  be hashed (TypeError); a condition value that is not a string makes the chosen test
  raise TypeError. A missing condition type is \<^verbatim>\<open>None\<close>, a missing condition value the
  empty string.
\<close>

definition check_domain_conditions ::
    "parse_result option \<Rightarrow> string \<Rightarrow> pydict \<Rightarrow> py_error + bool" where
  "check_domain_conditions result_global domain config =
     (let allowed = allowed_protocols config in
      case result_global of
        None \<Rightarrow> Inl (NameError ''result'')
      | Some result \<Rightarrow>
          (case py_in (scheme result) allowed of
             Inl e \<Rightarrow> Inl e
           | Inr False \<Rightarrow> Inr False
           | Inr True \<Rightarrow>
               (let condition_type = dict_get config ''condition_type'' JNull;
                    condition_value = dict_get config ''condition_value'' (JStr [])
                in case condition_type of
                     JList xs \<Rightarrow> Inl TypeError
                   | JDict kvs \<Rightarrow> Inl TypeError
                   | JStr t \<Rightarrow>
                       if t = ''contains'' then
                         (case condition_value of
                            JStr v \<Rightarrow> Inr (str_in v domain) | _ \<Rightarrow> Inl TypeError)
                       else if t = ''startswith'' then
                         (case condition_value of
                            JStr v \<Rightarrow> Inr (startswith domain v) | _ \<Rightarrow> Inl TypeError)
                       else if t = ''endswith'' then
                         (case condition_value of
                            JStr v \<Rightarrow> Inr (endswith domain v) | _ \<Rightarrow> Inl TypeError)
                       else Inr False
                   | _ \<Rightarrow> Inr False)))"

text \<open>
  Lines 197 to 203. \<^verbatim>\<open>klipplink.py\<close> binds no global named \<^verbatim>\<open>result\<close> (the variable of
  line 199 is local to this function), so \<^verbatim>\<open>check_domain_conditions\<close> runs with no
  binding for it.
\<close>

definition is_valid_and_ready_url :: "urllib \<Rightarrow> pydict \<Rightarrow> string \<Rightarrow> py_error + bool" where
  "is_valid_and_ready_url lib config url =
     (let decoded_url = lib_unquote lib url in
      case lib_urlparse lib decoded_url of
        Inl e \<Rightarrow> Inl e
      | Inr result \<Rightarrow>
          if scheme result \<noteq> [] \<and> netloc result \<noteq> [] then
            (let domain = lib_extract_domain lib (netloc result)
             in check_domain_conditions None domain config)
          else Inr False)"

subsection \<open>A library instance for concrete URLs\<close>

text \<open>
  The scheme and network location that \<^verbatim>\<open>urllib.parse.urlsplit\<close> computes: white space
  and control characters are stripped at the front, tabs and line breaks are removed,
  the scheme is the text before the first colon when it starts with a letter and
  consists of letters, digits, \<^verbatim>\<open>+\<close>, \<^verbatim>\<open>-\<close> and \<^verbatim>\<open>.\<close>, in lower case, and the network
  location is what follows \<^verbatim>\<open>//\<close> up to the next \<^verbatim>\<open>/\<close>, \<^verbatim>\<open>?\<close> or \<^verbatim>\<open>#\<close>. An unmatched
  square bracket in it is a ValueError. The further checks that urllib makes on
  bracketed and on non-ASCII hosts are left out, so this instance is used on plain
  ASCII inputs only.
\<close>

definition is_ascii_alpha :: "char \<Rightarrow> bool" where
  "is_ascii_alpha c =
     (let n = (of_char c :: nat) in (65 \<le> n \<and> n \<le> 90) \<or> (97 \<le> n \<and> n \<le> 122))"

definition is_scheme_char :: "char \<Rightarrow> bool" where
  "is_scheme_char c =
     (let n = (of_char c :: nat) in
      is_ascii_alpha c \<or> (48 \<le> n \<and> n \<le> 57) \<or> c \<in> set ''+-.'')"

definition ascii_lower :: "char \<Rightarrow> char" where
  "ascii_lower c =
     (let n = (of_char c :: nat) in if 65 \<le> n \<and> n \<le> 90 then char_of (n + 32) else c)"

definition urlparse_ascii :: "string \<Rightarrow> py_error + parse_result" where
  "urlparse_ascii url0 =
     (let url1 = dropWhile (\<lambda>c. (of_char c :: nat) \<le> 32) url0;
          url2 = filter (\<lambda>c. (of_char c :: nat) \<notin> {9, 10, 13}) url1;
          s = takeWhile (\<lambda>c. c \<noteq> CHR '':'') url2;
          has_scheme = (s \<noteq> [] \<and> length s < length url2 \<and>
                        is_ascii_alpha (hd url2) \<and> list_all is_scheme_char s);
          sch = (if has_scheme then map ascii_lower s else []);
          url3 = (if has_scheme then drop (Suc (length s)) url2 else url2);
          loc = (if take 2 url3 = ''//''
                 then takeWhile (\<lambda>c. c \<notin> set ''/?#'') (drop 2 url3) else [])
      in if (CHR ''['' \<in> set loc) \<noteq> (CHR '']'' \<in> set loc) then Inl ValueError
         else Inr \<lparr>scheme = sch, netloc = loc\<rparr>)"

definition ascii_lib :: "(string \<Rightarrow> string) \<Rightarrow> urllib" where
  "ascii_lib extract_domain =
     \<lparr>lib_unquote = unquote, lib_urlparse = urlparse_ascii,
      lib_extract_domain = extract_domain\<rparr>"

section \<open>retry_with_backoff\<close>

text \<open>
  Lines 35 to 56. The wrapped function is a state transformer: called on a state, it
  returns a value (\<open>Inr\<close>) or raises an exception (\<open>Inl\<close>), and leaves a new state.
  The wrapper raises the function's exception again, or an exception of its own: the
  module never imports \<^verbatim>\<open>random\<close>, so evaluating \<^verbatim>\<open>random.uniform(0, 1)\<close> on line 50
  raises NameError, and \<^verbatim>\<open>time.sleep\<close> raises ValueError on a negative delay.
  The run records the calls of the function, the retry lines written to the log and the
  delays slept. The wrapper returns \<open>Some v\<close> for the function's value \<open>v\<close> and \<open>None\<close>
  when the loop ends without a call.
\<close>

datatype 'e wrapper_error = OperationError 'e | WrapperError py_error

record ('s, 'e, 'd) retry_run =
  op_state :: 's
  attempts :: nat
  retry_log :: "(int \<times> 'e) list"
  sleeps :: "'d list"

text \<open>\<^verbatim>\<open>min(a, b)\<close> of Python: the first argument unless the second is smaller.\<close>

definition py_min :: "'d::ord \<Rightarrow> 'd \<Rightarrow> 'd" where
  "py_min a b = (if b < a then b else a)"

function retry_loop ::
    "int \<Rightarrow> 'd \<Rightarrow> 'd \<Rightarrow> bool \<Rightarrow> ('s \<Rightarrow> ('e + 'a) \<times> 's) \<Rightarrow> int \<Rightarrow> ('d::{times,ord,zero}) \<Rightarrow>
     ('s, 'e, 'd) retry_run \<Rightarrow> ('e wrapper_error + 'a option) \<times> ('s, 'e, 'd) retry_run" where
  "retry_loop max_retries max_delay factor jitter func retries delay run =
     (if retries < max_retries then
        (let called = run\<lparr>op_state := snd (func (op_state run)), attempts := Suc (attempts run)\<rparr>
         in case fst (func (op_state run)) of
              Inr v \<Rightarrow> (Inr (Some v), called)
            | Inl e \<Rightarrow>
                (let logged = called\<lparr>retry_log := retry_log called @ [(retries + 1, e)]\<rparr>
                 in if retries = max_retries - 1 then (Inl (OperationError e), logged)
                    else if jitter then (Inl (WrapperError (NameError ''random'')), logged)
                    else if py_min max_delay (delay * factor) < 0
                      then (Inl (WrapperError ValueError), logged)
                    else retry_loop max_retries max_delay factor jitter func (retries + 1)
                           (py_min max_delay (delay * factor))
                           (logged\<lparr>sleeps := sleeps logged @ [py_min max_delay (delay * factor)]\<rparr>)))
      else (Inr None, run))"
  by pat_completeness auto
termination
  by (relation "measure (\<lambda>(max_retries, max_delay, factor, jitter, func, retries, delay, run).
        nat (max_retries - retries))") auto

declare retry_loop.simps [simp del]

definition retry_with_backoff ::
    "int \<Rightarrow> 'd \<Rightarrow> 'd \<Rightarrow> 'd \<Rightarrow> bool \<Rightarrow> ('s \<Rightarrow> ('e + 'a) \<times> 's) \<Rightarrow> 's \<Rightarrow>
     ('e wrapper_error + 'a option) \<times> ('s, 'e, ('d::{times,ord,zero})) retry_run" where
  "retry_with_backoff max_retries initial_delay max_delay factor jitter func s =
     retry_loop max_retries max_delay factor jitter func 0 initial_delay
       \<lparr>op_state = s, attempts = 0, retry_log = [], sleeps = []\<rparr>"

text \<open>
  Started in state \<open>s\<close>, the function raises on its first \<open>j\<close> calls and returns
  \<open>v\<close> on the next one.
\<close>

fun fails_before_success :: "('s \<Rightarrow> ('e + 'a) \<times> 's) \<Rightarrow> 's \<Rightarrow> nat \<Rightarrow> 'a \<Rightarrow> bool" where
  "fails_before_success func s 0 v = (fst (func s) = Inr v)"
| "fails_before_success func s (Suc j) v =
     (isl (fst (func s)) \<and> fails_before_success func (snd (func s)) j v)"

section \<open>ClipboardMonitor\<close>

text \<open>
  Lines 58 to 82. A read of the clipboard returns its text or raises
  \<^verbatim>\<open>PyperclipException\<close>. \<open>poll\<close> is one pass through the body of the loop of
  \<^verbatim>\<open>_monitor_clipboard\<close>; emitting the signal is recorded in \<open>emitted\<close>, the message to
  \<^verbatim>\<open>trace_source\<close> in \<open>traced\<close>. The loop has no exit, so \<open>monitor_clipboard\<close> runs it
  over the first reads of the clipboard, however many are given.
\<close>

datatype clipboard_read = Pasted string | PyperclipException string

record clipboard_monitor =
  last_clipboard_content :: "string option"
  emitted :: "string list"
  traced :: "string list"

definition new_monitor :: clipboard_monitor where
  "new_monitor = \<lparr>last_clipboard_content = None, emitted = [], traced = []\<rparr>"

definition poll :: "clipboard_read \<Rightarrow> clipboard_monitor \<Rightarrow> clipboard_monitor" where
  "poll r m =
     (case r of
        Pasted current_content \<Rightarrow>
          if Some current_content \<noteq> last_clipboard_content m
          then m\<lparr>last_clipboard_content := Some current_content,
                 emitted := emitted m @ [current_content]\<rparr>
          else m
      | PyperclipException e \<Rightarrow>
          m\<lparr>traced := traced m @ [''Clipboard access failed: '' @ e]\<rparr>)"

fun monitor_clipboard :: "clipboard_read list \<Rightarrow> clipboard_monitor \<Rightarrow> clipboard_monitor" where
  "monitor_clipboard [] m = m"
| "monitor_clipboard (r # rs) m = monitor_clipboard rs (poll r m)"

section \<open>Loading and saving the configuration\<close>


text \<open>
  The settings window (lines 248 to 335): the values of its widgets and the
  configuration it was opened with.
\<close>

record settings_window =
  hotkey_edit :: string
  delay_slider :: int
  condition_combo :: string
  condition_value_edit :: string
  domain_replacement_check :: bool
  old_domain_edit :: string
  new_domain_edit :: string
  suffix_edit :: string
  window_config :: pydict

text \<open>Lines 315 to 326.\<close>

definition new_config :: "settings_window \<Rightarrow> pydict" where
  "new_config w =
     [(''hotkey'', JStr (hotkey_edit w)),
      (''double_press_delay'', JNum (of_int (delay_slider w) / 10)),
      (''condition_type'', JStr (condition_combo w)),
      (''condition_value'', JStr (condition_value_edit w)),
      (''enable_domain_replacement'', JBool (domain_replacement_check w)),
      (''replace_domain'',
         JDict [(''old'', JStr (old_domain_edit w)), (''new'', JStr (new_domain_edit w))]),
      (''suffix'', JStr (suffix_edit w))]"

text \<open>
  \<open>save_configuration\<close>, lines 313 to 335. \<open>write_error\<close> is the text of the exception
  that opening or writing \<^verbatim>\<open>config.json\<close> raises, \<open>None\<close> when it raises none. The
  result is the new content of the file and the message given to \<^verbatim>\<open>trace_source\<close>.
\<close>

definition save_configuration ::
    "settings_window \<Rightarrow> string option \<Rightarrow> pydict option \<Rightarrow> pydict option \<times> string" where
  "save_configuration w write_error file =
     (case write_error of
        None \<Rightarrow> (Some (new_config w), ''Configuration saved successfully.'')
      | Some e \<Rightarrow> (file, ''Error saving configuration: '' @ e))"

section \<open>Configurations and operations of the scenarios\<close>

text \<open>The configuration of the scenario that rejects \<^verbatim>\<open>ftp://example.com\<close>.\<close>

definition protocol_scenario_config :: pydict where
  "protocol_scenario_config =
     [(''condition_type'', JStr ''contains''),
      (''condition_value'', JStr ''example''),
      (''allowed_protocols'', JList [JStr ''http'', JStr ''https''])]"

text \<open>The same configuration with a condition type that is none of the three names.\<close>

definition unknown_type_config :: pydict where
  "unknown_type_config =
     [(''condition_type'', JStr ''regex''),
      (''condition_value'', JStr ''example''),
      (''allowed_protocols'', JList [JStr ''http'', JStr ''https''])]"

text \<open>The configuration of the scenario that rewrites \<^verbatim>\<open>https://old.com/page\<close>.\<close>

definition rewrite_scenario_config :: pydict where
  "rewrite_scenario_config =
     [(''enable_domain_replacement'', JBool True),
      (''replace_domain'', JDict [(''old'', JStr ''old.com''), (''new'', JStr ''new.com'')]),
      (''suffix'', JStr ''/suffix'')]"

text \<open>A configuration whose new domain contains the old one.\<close>

definition www_config :: pydict where
  "www_config =
     [(''enable_domain_replacement'', JBool True),
      (''replace_domain'',
         JDict [(''old'', JStr ''example.com''), (''new'', JStr ''www.example.com'')])]"

text \<open>
  An operation that raises on every call; its state counts the calls, and the text of
  the exception tells which call raised it.
\<close>

definition always_fails :: "nat \<Rightarrow> (string + unit) \<times> nat" where
  "always_fails n = (Inl (''failure '' @ replicate n CHR ''I''), Suc n)"

text \<open>
  The settings window as \<^verbatim>\<open>load_settings\<close> (lines 297 to 306) fills it from the default
  configuration.
\<close>

definition default_settings_window :: settings_window where
  "default_settings_window =
     \<lparr>hotkey_edit = ''ctrl'', delay_slider = 3, condition_combo = ''contains'',
      condition_value_edit = ''example'', domain_replacement_check = True,
      old_domain_edit = ''old.com'', new_domain_edit = ''new.com'',
      suffix_edit = ''/suffix'', window_config = default_config\<rparr>"

section \<open>Properties of the URL validation\<close>

lemma urlparse_ascii_ftp:
  "urlparse_ascii ''ftp://example.com'' = Inr \<lparr>scheme = ''ftp'', netloc = ''example.com''\<rparr>"
  by (simp add: urlparse_ascii_def is_ascii_alpha_def is_scheme_char_def ascii_lower_def Let_def)

text \<open>Without a binding for \<^verbatim>\<open>result\<close> the check raises on every domain and configuration.\<close>

lemma check_domain_conditions_unbound:
  "check_domain_conditions None domain config = Inl (NameError ''result'')"
  by (simp add: check_domain_conditions_def)

text \<open>So the validation of the program accepts no URL at all.\<close>

lemma is_valid_and_ready_url_never_accepts:
  "is_valid_and_ready_url lib config url \<noteq> Inr True"
  by (simp add: is_valid_and_ready_url_def check_domain_conditions_unbound Let_def
      split: sum.splits)

text \<open>
  What lines 207 to 215 do once the name is bound: a scheme outside the allowed
  protocols is rejected; under an allowed scheme an unknown condition type is rejected,
  and \<^verbatim>\<open>contains\<close> asks whether the condition value is a part of the domain label.
\<close>

lemma check_domain_conditions_bound_rejects:
  "py_in (scheme r) (allowed_protocols config) = Inr False \<Longrightarrow>
   check_domain_conditions (Some r) domain config = Inr False"
  by (simp add: check_domain_conditions_def)

lemma check_domain_conditions_bound_unknown_type:
  assumes "py_in (scheme r) (allowed_protocols config) = Inr True"
      and "dict_get config ''condition_type'' JNull = JStr t"
      and "t \<noteq> ''contains''" "t \<noteq> ''startswith''" "t \<noteq> ''endswith''"
  shows "check_domain_conditions (Some r) domain config = Inr False"
  using assms by (simp add: check_domain_conditions_def)

lemma check_domain_conditions_bound_contains:
  assumes "py_in (scheme r) (allowed_protocols config) = Inr True"
      and "dict_get config ''condition_type'' JNull = JStr ''contains''"
      and "dict_get config ''condition_value'' (JStr []) = JStr v"
  shows "check_domain_conditions (Some r) domain config = Inr (sublist v domain)"
  using assms by (simp add: check_domain_conditions_def str_in_def)

text \<open>
  C1. A URL whose scheme is not among the allowed protocols is to be rejected with the
  answer false. On \<^verbatim>\<open>ftp://example.com\<close>, under the configuration of the scenario and
  whatever \<^verbatim>\<open>tldextract\<close> extracts, the program raises NameError instead.
\<close>

theorem ftp_url_raises_name_error:
  "is_valid_and_ready_url (ascii_lib extract_domain) protocol_scenario_config
     ''ftp://example.com'' = Inl (NameError ''result'')"
  by (simp add: is_valid_and_ready_url_def ascii_lib_def escape_value_def urlparse_ascii_ftp
      check_domain_conditions_unbound)

section \<open>Properties of retry_with_backoff\<close>

text \<open>
  C2. An operation that fails on every attempt is to be run \<^verbatim>\<open>max_retries\<close> times, and
  its last error raised. With \<^verbatim>\<open>max_retries=3\<close> and the jitter that is the default, the
  program runs the operation once and raises NameError for \<^verbatim>\<open>random\<close>.
\<close>

theorem retry_with_jitter_raises_name_error:
  "fst (retry_with_backoff 3 (1::int) 60 2 True always_fails 0)
     = Inl (WrapperError (NameError ''random'')) \<and>
   attempts (snd (retry_with_backoff 3 (1::int) 60 2 True always_fails 0)) = 1"
  by (simp add: retry_with_backoff_def retry_loop.simps always_fails_def)

text \<open>The same call without jitter: three attempts, then the error of the third.\<close>

lemma retry_without_jitter_example:
  "fst (retry_with_backoff 3 (1::int) 60 2 False always_fails 0)
     = Inl (OperationError ''failure II'') \<and>
   attempts (snd (retry_with_backoff 3 (1::int) 60 2 False always_fails 0)) = 3"
  by (simp add: retry_with_backoff_def retry_loop.simps always_fails_def py_min_def
      numeral_2_eq_2)

section \<open>Properties of the clipboard monitor\<close>

lemma poll_failures:
  "monitor_clipboard (map PyperclipException es) m =
     m\<lparr>traced := traced m @ map (\<lambda>e. ''Clipboard access failed: '' @ e) es\<rparr>"
  by (induction es arbitrary: m) (simp_all add: poll_def)

lemma monitor_clipboard_append:
  "monitor_clipboard (rs @ rs') m = monitor_clipboard rs' (monitor_clipboard rs m)"
  by (induction rs arbitrary: m) simp_all

lemma last_after_pasted:
  "last_clipboard_content (monitor_clipboard (rs @ [Pasted c]) m) = Some c"
  by (simp add: monitor_clipboard_append poll_def)

lemma poll_same_content:
  "last_clipboard_content m = Some c \<Longrightarrow> poll (Pasted c) m = m"
  by (simp add: poll_def)

text \<open>
  C3, as amended. After any reads \<open>rs\<close> and a successful read of \<open>c\<close>, the previous
  successful sample is \<open>c\<close>, and a further read of \<open>c\<close>, whatever failed reads lie
  between the two, emits no event. The first successful read after startup, whatever
  failed reads precede it, emits one event with its content: the baseline is \<^verbatim>\<open>None\<close>,
  which no text equals.
\<close>

theorem clipboard_event_rules:
  "emitted (monitor_clipboard (rs @ [Pasted c] @ map PyperclipException es @ [Pasted c]) m)
     = emitted (monitor_clipboard (rs @ [Pasted c]) m) \<and>
   last_clipboard_content (monitor_clipboard (rs @ [Pasted c]) m) = Some c \<and>
   emitted (monitor_clipboard (map PyperclipException es @ [Pasted c]) new_monitor) = [c]"
proof (intro conjI)
  let ?m = "monitor_clipboard (rs @ [Pasted c]) m"
  let ?f = "?m\<lparr>traced := traced ?m @ map (\<lambda>e. ''Clipboard access failed: '' @ e) es\<rparr>"
  have "last_clipboard_content ?f = Some c" by (simp add: last_after_pasted)
  then have "poll (Pasted c) ?f = ?f" by (rule poll_same_content)
  moreover have "monitor_clipboard (rs @ [Pasted c] @ map PyperclipException es @ [Pasted c]) m
      = poll (Pasted c) ?f"
    using monitor_clipboard_append [of "rs @ [Pasted c]" "map PyperclipException es @ [Pasted c]" m]
    by (simp add: monitor_clipboard_append poll_failures)
  ultimately show "emitted (monitor_clipboard
      (rs @ [Pasted c] @ map PyperclipException es @ [Pasted c]) m) = emitted ?m"
    by simp
  show "last_clipboard_content ?m = Some c" by (rule last_after_pasted)
  show "emitted (monitor_clipboard (map PyperclipException es @ [Pasted c]) new_monitor) = [c]"
    by (simp add: monitor_clipboard_append poll_failures) (simp add: poll_def new_monitor_def)
qed

theorem clipboard_event_rules_witness:
  "emitted (monitor_clipboard
     ([Pasted ''a'', Pasted ''b''] @ [Pasted ''a''] @ map PyperclipException [''no clipboard'']
        @ [Pasted ''a'']) new_monitor) = [''a'', ''b'', ''a''] \<and>
   emitted (monitor_clipboard (map PyperclipException [''no clipboard''] @ [Pasted ''a''])
     new_monitor) = [''a'']"
  using clipboard_event_rules [of "[Pasted ''a'', Pasted ''b'']" "''a''" "[''no clipboard'']"
    new_monitor]
  by (simp add: poll_def new_monitor_def)

text \<open>C3 as stated fails: the first read after startup emits an event.\<close>

theorem first_read_emits_event:
  "emitted (monitor_clipboard [Pasted ''https://example.com''] new_monitor)
     = [''https://example.com'']"
  by (simp add: poll_def new_monitor_def)

section \<open>Properties of the URL validation, continued\<close>









lemma urlparse_ascii_https:
  "urlparse_ascii ''https://example.com''
     = Inr \<lparr>scheme = ''https'', netloc = ''example.com''\<rparr>"
  by (simp add: urlparse_ascii_def is_ascii_alpha_def is_scheme_char_def ascii_lower_def Let_def)

lemma urlparse_ascii_https_sub:
  "urlparse_ascii ''https://sub.example.com/path''
     = Inr \<lparr>scheme = ''https'', netloc = ''sub.example.com''\<rparr>"
  by (simp add: urlparse_ascii_def is_ascii_alpha_def is_scheme_char_def ascii_lower_def Let_def)

text \<open>
  C8. The condition test is to reject under a condition type that is none of the three
  names, and to let the one configured test decide otherwise. The program reaches the
  test for no domain and no configuration: \<^verbatim>\<open>check_domain_conditions\<close> raises NameError
  on line 207, under the unknown condition type \<^verbatim>\<open>regex\<close> as under \<^verbatim>\<open>contains\<close>, where
  the domain label \<^verbatim>\<open>example\<close> contains the condition value.
\<close>

theorem condition_test_never_reached:
  "check_domain_conditions None domain config = Inl (NameError ''result'') \<and>
   is_valid_and_ready_url (ascii_lib extract_domain) unknown_type_config
     ''https://example.com'' = Inl (NameError ''result'') \<and>
   is_valid_and_ready_url (ascii_lib extract_domain) protocol_scenario_config
     ''https://sub.example.com/path'' = Inl (NameError ''result'')"
  by (simp add: is_valid_and_ready_url_def ascii_lib_def escape_value_def
      urlparse_ascii_https urlparse_ascii_https_sub check_domain_conditions_def)




section \<open>Properties of the percent-decoding\<close>

lemma unquote_without_escape: "\<not> has_escape s \<Longrightarrow> unquote s = s"
  by (induction s rule: unquote.induct) (auto split: option.splits)

lemma length_unquote_le: "length (unquote s) \<le> length s"
  by (induction s rule: unquote.induct) (auto split: option.splits)

lemma length_unquote_less: "has_escape s \<Longrightarrow> length (unquote s) < length s"
proof (induction s rule: unquote.induct)
  case (1 c h1 h2 rest)
  show ?case
  proof (cases "escape_value c h1 h2")
    case None
    with "1.prems" have "has_escape (h1 # h2 # rest)" by simp
    with None "1.IH" show ?thesis by simp
  next
    case (Some d)
    then show ?thesis using length_unquote_le [of rest] by simp
  qed
qed simp_all

text \<open>
  C6, as amended. Decoding is a no-op exactly on the strings that hold no escape, so
  decoding a decoded string changes nothing exactly when the decoded string holds no
  escape.
\<close>

theorem unquote_idempotent_iff:
  "(unquote s = s \<longleftrightarrow> \<not> has_escape s) \<and>
   (unquote (unquote s) = unquote s \<longleftrightarrow> \<not> has_escape (unquote s))"
  using unquote_without_escape [of s] length_unquote_less [of s]
    unquote_without_escape [of "unquote s"] length_unquote_less [of "unquote s"]
  by auto

theorem unquote_idempotent_iff_witness:
  "unquote ''https://example.com/a b'' = ''https://example.com/a b'' \<and>
   \<not> has_escape ''https://example.com/a b'' \<and>
   unquote ''https://example.com/a%20b'' = ''https://example.com/a b'' \<and>
   has_escape ''https://example.com/a%20b'' \<and>
   unquote (unquote ''https://example.com/a%20b'') = unquote ''https://example.com/a%20b''"
  using unquote_idempotent_iff [of "''https://example.com/a b''"]
    unquote_idempotent_iff [of "''https://example.com/a%20b''"]
  by code_simp

text \<open>
  C6 as stated fails: \<^verbatim>\<open>%25\<close> decodes to a percent sign, which the two digits after it
  turn into a new escape.
\<close>

theorem unquote_twice_differs:
  "unquote ''%2541'' = ''%41'' \<and> unquote (unquote ''%2541'') = ''A''"
  by code_simp

section \<open>Properties of modify_url\<close>

text \<open>A string without an occurrence of \<open>old\<close> is left as it is.\<close>

lemma replace_from_absent:
  "\<not> sublist old s \<Longrightarrow> replace_from old new s = s"
proof (induction s)
  case Nil
  then show ?case by simp
next
  case (Cons c cs)
  from Cons.prems have np: "\<not> prefix old (c # cs)" and ns: "\<not> sublist old cs"
    by (auto simp: sublist_Cons_right)
  with Cons.IH show ?case by simp
qed

lemma str_replace_absent:
  "\<not> str_in old s \<Longrightarrow> str_replace s old new = s"
  unfolding str_in_def str_replace_def
  by (cases "old = []") (auto simp: replace_from_absent)

text \<open>
  The first occurrence of \<open>old\<close> is replaced, and the scan goes on behind it: \<open>p\<close> is
  the text before the first occurrence when \<open>old\<close> does not occur in \<open>p\<close> followed by
  all but the last character of \<open>old\<close>.
\<close>

lemma replace_from_at_occurrence:
  assumes "old \<noteq> []"
  shows "replace_from old new (old @ q) = new @ replace_from old new q"
proof -
  from assms obtain c cs where old: "old = c # cs" by (cases old) auto
  then show ?thesis by simp
qed

lemma prefix_within:
  assumes "prefix old (a # p @ old @ q)"
  shows "prefix old (a # p @ butlast old)"
proof -
  have len: "length old \<le> length (a # p @ butlast old)" by simp
  have "prefix (a # p @ butlast old) (a # p @ old @ q)"
    by (simp add: prefix_def)
       (metis append_butlast_last_id append_Nil append.assoc butlast.simps(1))
  with assms len show ?thesis
    by (metis prefix_length_prefix)
qed

lemma replace_from_first_occurrence:
  assumes "old \<noteq> []" and "\<not> sublist old (p @ butlast old)"
  shows "replace_from old new (p @ old @ q) = p @ new @ replace_from old new q"
  using assms
proof (induction p)
  case Nil
  then show ?case by (simp add: replace_from_at_occurrence)
next
  case (Cons a p)
  from Cons.prems(2) have "\<not> prefix old (a # p @ butlast old)"
    by (auto simp del: prefix_imp_sublist dest: prefix_imp_sublist)
  then have np: "\<not> prefix old (a # p @ old @ q)" by (auto dest: prefix_within)
  from Cons.prems(2) have "\<not> sublist old (p @ butlast old)"
    by (simp add: sublist_Cons_right)
  with Cons.IH Cons.prems(1) np show ?case by simp
qed

text \<open>
  C7. Under the configuration of the scenario \<^verbatim>\<open>https://old.com/page\<close> becomes
  \<^verbatim>\<open>https://new.com/page/suffix\<close>. For every URL the result is the URL with
  \<^verbatim>\<open>old.com\<close> replaced by \<^verbatim>\<open>new.com\<close>, followed by \<^verbatim>\<open>/suffix\<close> unless the replaced URL
  ends with it already; the replacement rewrites the first occurrence and goes on in
  the rest of the string, and changes nothing where there is no occurrence.
\<close>

theorem modify_url_scenario:
  "modify_url rewrite_scenario_config ''https://old.com/page''
     = Inr ''https://new.com/page/suffix'' \<and>
   modify_url rewrite_scenario_config url =
     Inr (if endswith (str_replace url ''old.com'' ''new.com'') ''/suffix''
          then str_replace url ''old.com'' ''new.com''
          else str_replace url ''old.com'' ''new.com'' @ ''/suffix'') \<and>
   (\<not> sublist ''old.com'' (p @ ''old.co'') \<longrightarrow>
      str_replace (p @ ''old.com'' @ q) ''old.com'' ''new.com''
        = p @ ''new.com'' @ str_replace q ''old.com'' ''new.com'') \<and>
   (\<not> sublist ''old.com'' url \<longrightarrow> str_replace url ''old.com'' ''new.com'' = url)"
proof (intro conjI impI)
  show "modify_url rewrite_scenario_config ''https://old.com/page''
          = Inr ''https://new.com/page/suffix''"
    by (simp add: modify_url_def rewrite_scenario_config_def dict_get_def str_replace_def
        endswith_def suffix_to_prefix)
  show "modify_url rewrite_scenario_config url =
     Inr (if endswith (str_replace url ''old.com'' ''new.com'') ''/suffix''
          then str_replace url ''old.com'' ''new.com''
          else str_replace url ''old.com'' ''new.com'' @ ''/suffix'')"
    by (simp add: modify_url_def rewrite_scenario_config_def dict_get_def)
  show "str_replace (p @ ''old.com'' @ q) ''old.com'' ''new.com''
        = p @ ''new.com'' @ str_replace q ''old.com'' ''new.com''"
    if "\<not> sublist ''old.com'' (p @ ''old.co'')"
    using that replace_from_first_occurrence [of "''old.com''" p "''new.com''" q]
    by (simp add: str_replace_def)
  show "str_replace url ''old.com'' ''new.com'' = url" if "\<not> sublist ''old.com'' url"
    using that by (simp add: str_replace_absent str_in_def)
qed

theorem modify_url_scenario_witness:
  "\<not> sublist ''old.com'' (''https://'' @ ''old.co'') \<and>
   str_replace (''https://'' @ ''old.com'' @ ''/page'') ''old.com'' ''new.com''
     = ''https://'' @ ''new.com'' @ ''/page'' \<and>
   \<not> sublist ''old.com'' ''https://new.com/page/suffix'' \<and>
   modify_url rewrite_scenario_config ''https://new.com/page/suffix''
     = Inr ''https://new.com/page/suffix''"
proof -
  have a: "\<not> sublist ''old.com'' (''https://'' @ ''old.co'')"
    by (simp add: sublist_code)
  have b: "\<not> sublist ''old.com'' ''/page''"
          "\<not> sublist ''old.com'' ''https://new.com/page/suffix''"
    by (simp_all add: sublist_code)
  have c: "str_replace ''/page'' ''old.com'' ''new.com'' = ''/page''"
    using b(1) by (simp add: str_replace_absent str_in_def)
  from modify_url_scenario [of "''https://new.com/page/suffix''" "''https://''" "''/page''"]
    a b c
  show ?thesis
    by (simp add: endswith_def suffix_to_prefix)
qed

text \<open>
  C4, as amended. Rewriting the result \<open>v\<close> of a rewrite gives \<open>v\<close> again whenever the
  domain replacement is off, or the old domain does not occur in \<open>v\<close>.
\<close>

theorem modify_url_idempotent_when_old_absent:
  assumes res: "modify_url config url = Inr v"
      and absent: "\<forall>rd old_domain.
             truthy (dict_get config ''enable_domain_replacement'' (JBool False)) \<and>
             map_of config ''replace_domain'' = Some (JDict rd) \<and>
             dict_get rd ''old'' (JStr '''') = JStr old_domain
             \<longrightarrow> \<not> str_in old_domain v"
  shows "modify_url config v = Inr v"
  using assms
  unfolding modify_url_def
  by (auto simp: str_replace_absent endswith_def suffix_def
      split: if_splits option.splits json.splits sum.splits prod.splits)

theorem modify_url_idempotent_when_old_absent_witness:
  "modify_url default_config ''https://old.com/page'' = Inr ''https://new.com/page/suffix'' \<and>
   modify_url default_config ''https://new.com/page/suffix''
     = Inr ''https://new.com/page/suffix''"
proof -
  have r: "modify_url default_config ''https://old.com/page''
             = Inr ''https://new.com/page/suffix''"
    by (simp add: modify_url_def default_config_def dict_get_def str_replace_def
        endswith_def suffix_to_prefix)
  have a: "\<forall>rd old_domain.
             truthy (dict_get default_config ''enable_domain_replacement'' (JBool False)) \<and>
             map_of default_config ''replace_domain'' = Some (JDict rd) \<and>
             dict_get rd ''old'' (JStr '''') = JStr old_domain
             \<longrightarrow> \<not> str_in old_domain ''https://new.com/page/suffix''"
    by (auto simp: default_config_def dict_get_def str_in_def sublist_code)
  from modify_url_idempotent_when_old_absent [OF r a] r show ?thesis by simp
qed

text \<open>
  C4 as stated fails: when the new domain contains the old one, every rewrite finds the
  old domain again.
\<close>

theorem modify_url_not_idempotent:
  "modify_url www_config ''https://example.com'' = Inr ''https://www.example.com'' \<and>
   modify_url www_config ''https://www.example.com'' = Inr ''https://www.www.example.com''"
  by (simp add: modify_url_def www_config_def dict_get_def str_replace_def)

section \<open>Properties of saving the configuration\<close>

text \<open>
  C10. The configuration that \<^verbatim>\<open>save_configuration\<close> writes has the seven fields
  \<^verbatim>\<open>hotkey\<close>, \<^verbatim>\<open>double_press_delay\<close>, \<^verbatim>\<open>condition_type\<close>, \<^verbatim>\<open>condition_value\<close>,
  \<^verbatim>\<open>enable_domain_replacement\<close>, \<^verbatim>\<open>replace_domain\<close> and \<^verbatim>\<open>suffix\<close> and no other; it has no
  \<^verbatim>\<open>allowed_protocols\<close>, whatever configuration the window was opened with and whatever
  the file held before.
\<close>

theorem saved_configuration_fields:
  "map fst (new_config w) =
     [''hotkey'', ''double_press_delay'', ''condition_type'', ''condition_value'',
      ''enable_domain_replacement'', ''replace_domain'', ''suffix''] \<and>
   map_of (new_config w) ''allowed_protocols'' = None \<and>
   fst (save_configuration w None file) = Some (new_config w)"
  by (simp add: new_config_def save_configuration_def)

text \<open>Saving the window that was opened on the default configuration loses the field.\<close>

theorem saved_configuration_fields_witness:
  "map_of (window_config default_settings_window) ''allowed_protocols''
     = Some (JList [JStr ''http'', JStr ''https'']) \<and>
   fst (save_configuration default_settings_window None (Some default_config))
     = Some (new_config default_settings_window) \<and>
   map_of (new_config default_settings_window) ''allowed_protocols'' = None"
  using saved_configuration_fields [of default_settings_window "Some default_config"]
  by (simp add: default_settings_window_def default_config_def)

section \<open>retry_with_backoff without jitter\<close>

text \<open>
  With \<^verbatim>\<open>jitter=False\<close> and delays that are not negative the wrapper does what is asked
  of it. An operation that raises on every call is called \<^verbatim>\<open>max_retries\<close> times, and the
  exception of the last call is raised.
\<close>

lemma py_min_nonneg:
  fixes a b :: "'d::linordered_idom"
  shows "0 \<le> a \<Longrightarrow> 0 \<le> b \<Longrightarrow> 0 \<le> py_min a b"
  by (auto simp: py_min_def)

lemma retry_loop_always_fails:
  fixes delay :: "'d::linordered_idom"
  assumes fails: "\<And>s. isl (fst (func s))"
      and "n = nat (max_retries - retries)" "retries < max_retries"
      and "0 \<le> max_delay" "0 \<le> factor" "0 \<le> delay"
  shows "\<exists>e. fst (retry_loop max_retries max_delay factor False func retries delay run)
               = Inl (OperationError e) \<and>
             last (retry_log (snd (retry_loop max_retries max_delay factor False func
               retries delay run))) = (max_retries, e) \<and>
             attempts (snd (retry_loop max_retries max_delay factor False func
               retries delay run)) = attempts run + nat (max_retries - retries)"
  using assms(2-)
proof (induction n arbitrary: retries delay run)
  case 0
  then show ?case by simp
next
  case (Suc n)
  from fails [of "op_state run"] obtain e where e: "fst (func (op_state run)) = Inl e"
    by (cases "fst (func (op_state run))") auto
  show ?case
  proof (cases "retries = max_retries - 1")
    case True
    with e Suc.prems show ?thesis
      by (subst (1 2 3) retry_loop.simps) (simp add: Let_def)
  next
    case False
    let ?d = "py_min max_delay (delay * factor)"
    let ?run = "run\<lparr>op_state := snd (func (op_state run)), attempts := Suc (attempts run),
               retry_log := retry_log run @ [(retries + 1, e)],
               sleeps := sleeps run @ [?d]\<rparr>"
    have "0 \<le> delay * factor" using Suc.prems by simp
    with Suc.prems have d1: "0 \<le> ?d" by (intro py_min_nonneg)
    then have d: "0 \<le> ?d" "\<not> ?d < 0" by (simp_all add: not_less)
    have n: "n = nat (max_retries - (retries + 1))" "retries + 1 < max_retries"
      using Suc.prems False by auto
    note IH = Suc.IH [OF n Suc.prems(3,4) d(1)]
    have step: "retry_loop max_retries max_delay factor False func retries delay run =
        retry_loop max_retries max_delay factor False func (retries + 1) ?d ?run"
      using e False Suc.prems d by (subst retry_loop.simps) (simp add: Let_def)
    show ?thesis
      unfolding step using IH [of ?run] n Suc.prems
      by (auto simp: nat_diff_distrib)
  qed
qed

text \<open>
  An operation that returns on call \<open>j + 1\<close>, within the \<^verbatim>\<open>max_retries\<close> calls, is called
  \<open>j + 1\<close> times, and its value is returned.
\<close>

lemma retry_loop_succeeds:
  fixes delay :: "'d::linordered_idom"
  assumes "fails_before_success func (op_state run) j v"
      and "retries + int j < max_retries"
      and "0 \<le> max_delay" "0 \<le> factor" "0 \<le> delay"
  shows "fst (retry_loop max_retries max_delay factor False func retries delay run)
               = Inr (Some v) \<and>
         attempts (snd (retry_loop max_retries max_delay factor False func retries delay run))
               = attempts run + j + 1"
  using assms
proof (induction j arbitrary: retries delay run)
  case 0
  then show ?case by (subst (1 2) retry_loop.simps) (simp add: Let_def)
next
  case (Suc j)
  from Suc.prems(1) obtain e where e: "fst (func (op_state run)) = Inl e"
    by (cases "fst (func (op_state run))") auto
  let ?d = "py_min max_delay (delay * factor)"
  let ?run = "run\<lparr>op_state := snd (func (op_state run)), attempts := Suc (attempts run),
               retry_log := retry_log run @ [(retries + 1, e)],
               sleeps := sleeps run @ [?d]\<rparr>"
  have "0 \<le> delay * factor" using Suc.prems by simp
  with Suc.prems have d1: "0 \<le> ?d" by (intro py_min_nonneg)
  then have d: "0 \<le> ?d" "\<not> ?d < 0" by (simp_all add: not_less)
  have step: "retry_loop max_retries max_delay factor False func retries delay run =
        retry_loop max_retries max_delay factor False func (retries + 1) ?d ?run"
    using e Suc.prems d by (subst retry_loop.simps) (simp add: Let_def)
  have "fails_before_success func (op_state ?run) j v" using Suc.prems(1) by simp
  from Suc.IH [OF this _ Suc.prems(3,4) d(1), of "retries + 1"] Suc.prems(2)
  show ?case unfolding step by simp
qed

text \<open>
  With jitter, an operation that raises on its first call is called once, and the
  wrapper raises NameError, whenever more than one attempt is allowed.
\<close>

lemma retry_with_jitter_first_failure:
  assumes "fst (func s) = Inl e" and "1 < max_retries"
  shows "fst (retry_with_backoff max_retries initial_delay max_delay factor True func s)
           = Inl (WrapperError (NameError ''random'')) \<and>
         attempts (snd (retry_with_backoff max_retries initial_delay max_delay factor True
           func s)) = 1"
  using assms by (simp add: retry_with_backoff_def retry_loop.simps Let_def)

end
